theory Spec2Isabelle
  imports Main
begin

text \<open>
  A model of the relayer's reconciliation pass, \<open>syncAndPublish\<close> with its helper
  \<open>publishTransaction\<close> (\<open>src/modules/transactions.js\<close>), and of \<open>create\<close> of the
  request collection (\<open>part_000\<close>). The collection is a list of documents in insertion
  order and its operations are taken to succeed; the wallet, the provider and the contract
  are parameters.
\<close>

section \<open>Values of the host language\<close>

text \<open>
  A JavaScript number as the nonce arithmetic sees it: an integer, or \<open>NaN\<close>, which is
  what \<open>undefined + 1\<close> evaluates to. Integers are taken exact (the source's nonces, gas
  figures and timestamps are far below \<open>2^53\<close>).
\<close>

datatype jsnum = Num int | NaN

text \<open>\<open>x + 1\<close> and \<open>++x\<close> on a number.\<close>

fun inc :: "jsnum \<Rightarrow> jsnum" where
  "inc (Num n) = Num (n + 1)"
| "inc NaN = NaN"

text \<open>\<open>request.nonce + 1\<close> on a field that may be absent (\<open>undefined + 1\<close> is \<open>NaN\<close>).\<close>

fun plusOne :: "jsnum option \<Rightarrow> jsnum" where
  "plusOne None = NaN"
| "plusOne (Some x) = inc x"

text \<open>Truthiness of a possibly absent number: \<open>undefined\<close>, \<open>0\<close> and \<open>NaN\<close> are falsy.\<close>

fun truthy :: "jsnum option \<Rightarrow> bool" where
  "truthy None = False"
| "truthy (Some NaN) = False"
| "truthy (Some (Num n)) = (n \<noteq> 0)"

text \<open>
  A thrown value: its \<open>code\<close> property (absent on a plain \<open>Error\<close> or \<open>TypeError\<close>) and the
  result of its \<open>toString()\<close>.
\<close>

record jserror =
  code :: "string option"
  toString :: string

definition typeError :: jserror where
  "typeError = \<lparr>code = None, toString = ''TypeError: Cannot read properties of undefined''\<rparr>"

text \<open>
  A receipt figure: the chain client hands out big-number objects for gas, the unary plus
  of the source turns them into plain numbers.
\<close>

datatype numeric = BigNumber int | Number jsnum

fun unaryPlus :: "numeric \<Rightarrow> numeric" where
  "unaryPlus (BigNumber n) = Number (Num n)"
| "unaryPlus (Number x) = Number x"

fun isPlain :: "numeric \<Rightarrow> bool" where
  "isPlain (BigNumber n) = False"
| "isPlain (Number x) = True"

text \<open>
  A \<open>Date\<close>: a time value in milliseconds since the epoch, or \<open>Invalid Date\<close>.
  \<open>new Date(v)\<close> on a number keeps \<open>v\<close> when it is at most 8.64e15 in absolute value
  and gives \<open>Invalid Date\<close> beyond.
\<close>

datatype date = Date int | InvalidDate

definition newDate :: "int \<Rightarrow> date" where
  "newDate v = (if \<bar>v\<bar> \<le> 8640000000000000 then Date v else InvalidDate)"

section \<open>The data model\<close>

text \<open>\<open>status\<close> of \<open>part_000\<close>: \<open>new: 0, confirmed: 1, mining: 2, mined: 3, failed: 4\<close>.\<close>

datatype status = new | confirmed | mining | mined | failed

record receipt =
  confirmations :: int
  gasUsed :: numeric
  cumulativeGasUsed :: numeric

record transaction =
  txNonce :: jsnum

record wallet =
  address :: string

text \<open>
  The \<open>context\<close> of a request (the field is \<open>reqContext\<close> below):
  \<open>context.contract.address\<close> and the optional \<open>context.expiresAt\<close>, a whole number
  of seconds since the epoch.
\<close>

record requestContext =
  contractAddress :: string
  ctxExpiresAt :: "int option"

text \<open>
  The document that \<open>create\<close> inserts. \<open>reqId\<close> is the field \<open>id\<close>.
\<close>

record newRequest =
  reqId :: string
  status :: status
  signer :: string
  reqContext :: requestContext
  fee :: string
  signatureOptions :: string
  createdAt :: date
  expiresAt :: date

text \<open>
  A stored document: the inserted fields, the store's \<open>_id\<close> (here \<open>oid\<close>) and the
  fields that later updates add. An absent field is \<open>None\<close>.
\<close>

record request = newRequest +
  oid :: nat
  nonce :: "jsnum option"
  transactionHash :: "string option"
  txReceipt :: "receipt option"
  reason :: "string option"
  delegatedFunctionName :: "string option"
  delegatedFunctionArguments :: "string list option"

text \<open>The collection, in natural (insertion) order.\<close>

type_synonym store = "request list"

text \<open>The \<open>$set\<close> document of an update: the fields it names.\<close>

record update =
  setStatus :: "status option"
  setTxReceipt :: "receipt option"
  setNonce :: "jsnum option"
  setTransactionHash :: "string option"
  setReason :: "string option"

definition applySet :: "update \<Rightarrow> request \<Rightarrow> request" where
  "applySet u d =
     d\<lparr>status := (case setStatus u of None \<Rightarrow> status d | Some s \<Rightarrow> s),
       txReceipt := (case setTxReceipt u of None \<Rightarrow> txReceipt d | Some r \<Rightarrow> Some r),
       nonce := (case setNonce u of None \<Rightarrow> nonce d | Some n \<Rightarrow> Some n),
       transactionHash :=
         (case setTransactionHash u of None \<Rightarrow> transactionHash d | Some h \<Rightarrow> Some h),
       reason := (case setReason u of None \<Rightarrow> reason d | Some s \<Rightarrow> Some s)\<rparr>"

text \<open>\<open>findOneAndUpdate({_id: i}, {$set: u})\<close>: the first document with that \<open>_id\<close>.\<close>

fun findOneAndUpdate :: "store \<Rightarrow> nat \<Rightarrow> update \<Rightarrow> store" where
  "findOneAndUpdate [] i u = []"
| "findOneAndUpdate (d # ds) i u =
     (if oid d = i then applySet u d # ds else d # findOneAndUpdate ds i u)"

text \<open>\<open>findOne({_id: i})\<close>.\<close>

fun findOne :: "store \<Rightarrow> nat \<Rightarrow> request option" where
  "findOne [] i = None"
| "findOne (d # ds) i = (if oid d = i then Some d else findOne ds i)"

section \<open>The collaborators\<close>

text \<open>
  \<open>errorCode\<close> is imported from the chain module, which is not part of the sources at
  hand: its three codes are parameters.
\<close>

record errorCodes =
  INSUFFICIENT_FUNDS :: string
  NONCE_EXPIRED :: string
  REPLACEMENT_UNDERPRICED :: string

text \<open>
  The wallet, the provider and the contract are reached through awaited calls. Each call
  takes the state of the outside world \<open>'w\<close>, returns the new one, and either a value or
  the error it throws. \<open>callContract\<close> is the call
  \<open>contract.functions[name](...arguments.concat({nonce}))\<close>.
\<close>

text \<open>
  The block that a count is asked for. \<open>getTransactionCount\<close> of the provider takes the
  address and, optionally, such a tag; \<open>None\<close> is a call that passes the address only.
\<close>

datatype blockTag = earliest | latest | pending | blockNumber int

record 'w env =
  errorCode :: errorCodes
  requiredConfirmations :: int
  getWallet :: "'w \<Rightarrow> (jserror + wallet) \<times> 'w"
  getContract :: "string \<Rightarrow> 'w \<Rightarrow> (jserror + string) \<times> 'w"
  getTransactionCount ::
    "string \<Rightarrow> blockTag option \<Rightarrow> 'w \<Rightarrow> (jserror + jsnum) \<times> 'w"
  getTransactionReceipt :: "string option \<Rightarrow> 'w \<Rightarrow> (jserror + receipt option) \<times> 'w"
  getTransaction :: "string option \<Rightarrow> 'w \<Rightarrow> (jserror + transaction option) \<times> 'w"
  callContract :: "string \<Rightarrow> request \<Rightarrow> jsnum \<Rightarrow> 'w \<Rightarrow> (jserror + string) \<times> 'w"

section \<open>publishTransaction\<close>

text \<open>
  The \<open>while (true)\<close> loop of \<open>publishTransaction\<close>. It has no bound on its attempts, so
  the model is a partial function: \<open>None\<close> is the loop that never leaves.
\<close>

partial_function (option) publishLoop ::
  "'w env \<Rightarrow> string \<Rightarrow> request \<Rightarrow> jsnum \<Rightarrow> 'w \<Rightarrow> ((jserror + string \<times> jsnum) \<times> 'w) option"
where
  "publishLoop env contract r n w =
     (case callContract env contract r n w of
        (Inr h, w') \<Rightarrow> Some (Inr (h, n), w')
      | (Inl e, w') \<Rightarrow>
          if code e = Some (NONCE_EXPIRED (errorCode env))
             \<or> code e = Some (REPLACEMENT_UNDERPRICED (errorCode env))
          then publishLoop env contract r (inc n) w'
          else Some (Inl e, w'))"

declare publishLoop.simps [code]

text \<open>
  \<open>publishTransaction\<close>: the contract is looked up first (an error of the lookup leaves
  the function), then the loop runs.
\<close>

definition publishTransaction ::
  "'w env \<Rightarrow> request \<Rightarrow> jsnum \<Rightarrow> 'w \<Rightarrow> ((jserror + string \<times> jsnum) \<times> 'w) option"
where
  "publishTransaction env r n w =
     (case getContract env (contractAddress (reqContext r)) w of
        (Inl e, w') \<Rightarrow> Some (Inl e, w')
      | (Inr c, w') \<Rightarrow> publishLoop env c r n w')"

section \<open>syncAndPublish\<close>

text \<open>
  Step 1: the last mined request, \<open>find({status: mined}).sort({$natural: -1}).limit(1)\<close>,
  first element of the resulting array (\<open>undefined\<close> when the array is empty).
\<close>

definition lastMinedTx :: "store \<Rightarrow> request option" where
  "lastMinedTx dr =
     (case rev (filter (\<lambda>d. status d = mined) dr) of [] \<Rightarrow> None | d # ds \<Rightarrow> Some d)"

text \<open>
  The property \<open>0\<close> of a request document, read by \<open>lastMinedTx[0]\<close>. A document of this
  collection has the fields of the record \<open>request\<close> and none that is named \<open>0\<close>, so the
  read gives \<open>undefined\<close>.
\<close>

definition index0 :: "request \<Rightarrow> request option" where
  "index0 d = None"

text \<open>
  The \<open>if\<close> that sets \<open>nextNonce\<close>. Reading \<open>.nonce\<close> of \<open>undefined\<close> throws a
  \<open>TypeError\<close>, which nothing in \<open>syncAndPublish\<close> catches.
\<close>

definition initNextNonce ::
  "'w env \<Rightarrow> wallet \<Rightarrow> request option \<Rightarrow> 'w \<Rightarrow> (jserror + jsnum) \<times> 'w"
where
  "initNextNonce env delegateWallet lm w =
     (case lm of
        None \<Rightarrow> getTransactionCount env (address delegateWallet) None w
      | Some d \<Rightarrow>
          (case index0 d of
             None \<Rightarrow> (Inl typeError, w)
           | Some x \<Rightarrow> (Inr (plusOne (nonce x)), w)))"

text \<open>Step 2: the queue, in natural order.\<close>

definition requestQueue :: "store \<Rightarrow> request option \<Rightarrow> request list" where
  "requestQueue dr lm =
     filter (\<lambda>d. (case lm of None \<Rightarrow> True | Some l \<Rightarrow> oid l < oid d)
                 \<and> (status d = confirmed \<or> status d = mining \<or> status d = mined)) dr"

text \<open>
  ``De-bignumberify'': \<open>txReceipt.gasUsed = +txReceipt.gasUsed\<close> and the same for
  \<open>cumulativeGasUsed\<close>; the other fields of the receipt stay.
\<close>

definition deBignumberify :: "receipt \<Rightarrow> receipt" where
  "deBignumberify txr =
     txr\<lparr>gasUsed := unaryPlus (gasUsed txr),
         cumulativeGasUsed := unaryPlus (cumulativeGasUsed txr)\<rparr>"

text \<open>
  Step 3, the body of the \<open>for\<close> loop on one request: the collection and \<open>nextNonce\<close> go
  in and come out. \<open>Inl\<close> is an error that leaves \<open>syncAndPublish\<close>; \<open>None\<close> is a publish
  loop that never returns.
\<close>

definition processRequest ::
  "'w env \<Rightarrow> request \<Rightarrow> store \<Rightarrow> jsnum \<Rightarrow> 'w \<Rightarrow> ((jserror + store \<times> jsnum) \<times> 'w) option"
where
  "processRequest env request dr nextNonce w =
     (if status request = mined then
        Some (Inr (dr, plusOne (nonce request)), w)
      else if status request = mining then
        (case getTransactionReceipt env (transactionHash request) w of
           (Inl e, w1) \<Rightarrow> Some (Inl e, w1)
         | (Inr (Some receipt), w1) \<Rightarrow>
             if confirmations receipt < requiredConfirmations env then
               Some (Inr (dr, if truthy (nonce request) then plusOne (nonce request)
                              else inc nextNonce), w1)
             else
               (case getTransaction env (transactionHash request) w1 of
                  (Inl e, w2) \<Rightarrow> Some (Inl e, w2)
                | (Inr None, w2) \<Rightarrow> Some (Inl typeError, w2)
                | (Inr (Some tx), w2) \<Rightarrow>
                    Some (Inr (findOneAndUpdate dr (oid request)
                                 \<lparr>setStatus = Some mined,
                                  setTxReceipt = Some (deBignumberify receipt),
                                  setNonce = Some (txNonce tx),
                                  setTransactionHash = None,
                                  setReason = None\<rparr>,
                               inc (txNonce tx)), w2))
         | (Inr None, w1) \<Rightarrow> Some (Inr (dr, inc nextNonce), w1))
      else if status request = confirmed then
        (case publishTransaction env request nextNonce w of
           None \<Rightarrow> None
         | Some (Inr (h, n), w1) \<Rightarrow>
             Some (Inr (findOneAndUpdate dr (oid request)
                          \<lparr>setStatus = Some mining,
                           setTxReceipt = None,
                           setNonce = Some n,
                           setTransactionHash = Some h,
                           setReason = None\<rparr>,
                        inc n), w1)
         | Some (Inl e, w1) \<Rightarrow>
             Some (Inr (findOneAndUpdate dr (oid request)
                          \<lparr>setStatus = Some failed,
                           setTxReceipt = None,
                           setNonce = None,
                           setTransactionHash = None,
                           setReason = Some
                             (if code e = Some (INSUFFICIENT_FUNDS (errorCode env))
                              then ''Delegate account has no Ether on its balance''
                              else ''Transaction error when publishing: '' @ toString e)\<rparr>,
                        nextNonce), w1))
      else Some (Inr (dr, nextNonce), w))"

text \<open>The \<open>for\<close> loop over the queue, which was read before the loop started.\<close>

fun traverse ::
  "'w env \<Rightarrow> request list \<Rightarrow> store \<Rightarrow> jsnum \<Rightarrow> 'w \<Rightarrow> ((jserror + store \<times> jsnum) \<times> 'w) option"
where
  "traverse env [] dr nextNonce w = Some (Inr (dr, nextNonce), w)"
| "traverse env (request # rest) dr nextNonce w =
     (case processRequest env request dr nextNonce w of
        None \<Rightarrow> None
      | Some (Inl e, w1) \<Rightarrow> Some (Inl e, w1)
      | Some (Inr (dr1, nextNonce1), w1) \<Rightarrow> traverse env rest dr1 nextNonce1 w1)"

text \<open>
  The whole pass. The source returns nothing; the model returns the collection and the
  last value of \<open>nextNonce\<close>, so that both can be observed.
\<close>

definition syncAndPublish ::
  "'w env \<Rightarrow> store \<Rightarrow> 'w \<Rightarrow> ((jserror + store \<times> jsnum) \<times> 'w) option"
where
  "syncAndPublish env dr w =
     (case getWallet env w of
        (Inl e, w1) \<Rightarrow> Some (Inl e, w1)
      | (Inr delegateWallet, w1) \<Rightarrow>
          (case initNextNonce env delegateWallet (lastMinedTx dr) w1 of
             (Inl e, w2) \<Rightarrow> Some (Inl e, w2)
           | (Inr nextNonce, w2) \<Rightarrow>
               traverse env (requestQueue dr (lastMinedTx dr)) dr nextNonce w2))"

section \<open>create\<close>

text \<open>
  \<open>create\<close> of \<open>part_000\<close>. The clock reading \<open>now\<close> (the time value of \<open>new Date()\<close>,
  in milliseconds), the \<open>_id\<close> that the store gives the new document and
  \<open>instanceConfig.defaultExpiresAtSeconds\<close> are parameters. The collection has a unique index on \<open>id\<close>, so an insertion with an \<open>id\<close>
  that is already there is refused. The result is the inserted document without its \<open>_id\<close>.
\<close>

definition duplicateKey :: jserror where
  "duplicateKey = \<lparr>code = Some ''11000'', toString = ''MongoError: E11000 duplicate key error''\<rparr>"

definition create ::
  "int \<Rightarrow> int \<Rightarrow> nat \<Rightarrow> string \<Rightarrow> requestContext \<Rightarrow> string \<Rightarrow> string \<Rightarrow> string \<Rightarrow> store
     \<Rightarrow> jserror + newRequest \<times> store"
where
  "create defaultExpiresAtSeconds now newOid id' context' signer' fee' signatureOptions' dr =
     (let expires =
            (case ctxExpiresAt context' of
               None \<Rightarrow> newDate (now + defaultExpiresAtSeconds * 1000)
             | Some e \<Rightarrow> if e \<noteq> 0 then newDate (e * 1000)
                         else newDate (now + defaultExpiresAtSeconds * 1000))
      in if id' \<in> set (map reqId dr) then Inl duplicateKey
         else Inr (\<lparr>reqId = id', status = new, signer = signer', reqContext = context',
                    fee = fee', signatureOptions = signatureOptions',
                    createdAt = Date now, expiresAt = expires\<rparr>,
                   dr @ [\<lparr>reqId = id', status = new, signer = signer', reqContext = context',
                          fee = fee', signatureOptions = signatureOptions',
                          createdAt = Date now, expiresAt = expires,
                          oid = newOid, nonce = None, transactionHash = None,
                          txReceipt = None, reason = None,
                          delegatedFunctionName = None,
                          delegatedFunctionArguments = None\<rparr>]))"

section \<open>A concrete environment\<close>

text \<open>
  An environment to run the model on. The world is the number of calls made so far. The
  relayer's transaction count is 10 when no block is named and 12 with the pending
  transactions counted in; the contract refuses nonce 10 as already used and
  accepts any other; the function \<open>drain\<close> fails for lack of funds and the function
  \<open>revert\<close> with a call exception; the transaction
  \<open>0xaa\<close> has 2 confirmations and \<open>0xbb\<close> has 5, with 3 required; every transaction
  looked up carries nonce 7.
\<close>

definition exampleCodes :: errorCodes where
  "exampleCodes =
     \<lparr>INSUFFICIENT_FUNDS = ''INSUFFICIENT_FUNDS'', NONCE_EXPIRED = ''NONCE_EXPIRED'',
      REPLACEMENT_UNDERPRICED = ''REPLACEMENT_UNDERPRICED''\<rparr>"

definition exampleEnv :: "nat env" where
  "exampleEnv =
     \<lparr>errorCode = exampleCodes,
      requiredConfirmations = 3,
      getWallet = (\<lambda>w. (Inr \<lparr>address = ''0xrelayer''\<rparr>, Suc w)),
      getContract = (\<lambda>a w. (Inr a, Suc w)),
      getTransactionCount = (\<lambda>a tag w.
        (Inr (if tag = Some pending then Num 12 else Num 10), Suc w)),
      getTransactionReceipt = (\<lambda>h w.
        (Inr (if h = Some ''0xaa''
              then Some \<lparr>confirmations = 2, gasUsed = BigNumber 21000,
                         cumulativeGasUsed = BigNumber 50000\<rparr>
              else if h = Some ''0xbb''
              then Some \<lparr>confirmations = 5, gasUsed = BigNumber 21000,
                         cumulativeGasUsed = BigNumber 50000\<rparr>
              else None), Suc w)),
      getTransaction = (\<lambda>h w. (Inr (Some \<lparr>txNonce = Num 7\<rparr>), Suc w)),
      callContract = (\<lambda>c r n w.
        (if delegatedFunctionName r = Some ''drain''
         then Inl \<lparr>code = Some ''INSUFFICIENT_FUNDS'',
                   toString = ''Error: insufficient funds''\<rparr>
         else if delegatedFunctionName r = Some ''revert''
         then Inl \<lparr>code = Some ''CALL_EXCEPTION'',
                   toString = ''Error: call revert exception''\<rparr>
         else if n = Num 10
         then Inl \<lparr>code = Some ''NONCE_EXPIRED'',
                   toString = ''Error: nonce has already been used''\<rparr>
         else Inr ''0xcc'', Suc w))\<rparr>"

definition exampleRequest :: request where
  "exampleRequest =
     \<lparr>reqId = ''r1'', status = confirmed, signer = ''0xsigner'',
      reqContext = \<lparr>contractAddress = ''0xtoken'', ctxExpiresAt = None\<rparr>,
      fee = ''1'', signatureOptions = ''{}'', createdAt = Date 1000,
      expiresAt = Date 2000,
      oid = 1, nonce = None, transactionHash = None, txReceipt = None, reason = None,
      delegatedFunctionName = Some ''transfer'',
      delegatedFunctionArguments = Some [''0xto'', ''5'']\<rparr>"

definition drainRequest :: request where
  "drainRequest = exampleRequest\<lparr>oid := 2, delegatedFunctionName := Some ''drain''\<rparr>"

definition revertRequest :: request where
  "revertRequest = exampleRequest\<lparr>oid := 3, delegatedFunctionName := Some ''revert''\<rparr>"

definition miningRequest :: "string \<Rightarrow> request" where
  "miningRequest h =
     exampleRequest\<lparr>status := mining, nonce := Some (Num 6), transactionHash := Some h\<rparr>"

lemmas ex_defs = exampleEnv_def exampleCodes_def exampleRequest_def drainRequest_def
  revertRequest_def miningRequest_def

section \<open>Facts about the store\<close>

lemma oid_applySet: "oid (applySet u d) = oid d"
  by (simp add: applySet_def)

lemma findOne_findOneAndUpdate:
  "findOne (findOneAndUpdate dr i u) i = map_option (applySet u) (findOne dr i)"
  by (induction dr) (simp_all add: oid_applySet)

lemma map_nonce_findOneAndUpdate:
  "setNonce u = None \<Longrightarrow> map nonce (findOneAndUpdate dr i u) = map nonce dr"
  by (induction dr) (simp_all add: applySet_def)

lemma map_transactionHash_findOneAndUpdate:
  "setTransactionHash u = None \<Longrightarrow>
   map transactionHash (findOneAndUpdate dr i u) = map transactionHash dr"
  by (induction dr) (simp_all add: applySet_def)

lemma erase_findOneAndUpdate:
  "setNonce u = None \<Longrightarrow> setTransactionHash u = None \<Longrightarrow> setTxReceipt u = None \<Longrightarrow>
   map (\<lambda>d. d\<lparr>status := s, reason := x\<rparr>) (findOneAndUpdate dr i u)
     = map (\<lambda>d. d\<lparr>status := s, reason := x\<rparr>) dr"
  by (induction dr) (simp_all add: applySet_def)

lemma lastMinedTx_None: "(\<forall>d \<in> set dr. status d \<noteq> mined) \<Longrightarrow> lastMinedTx dr = None"
proof -
  assume "\<forall>d \<in> set dr. status d \<noteq> mined"
  then have "filter (\<lambda>d. status d = mined) dr = []"
    by (simp add: filter_empty_conv)
  then show ?thesis by (simp add: lastMinedTx_def)
qed

lemma lastMinedTx_Some:
  assumes "d \<in> set dr" and "status d = mined"
  shows "\<exists>l. lastMinedTx dr = Some l \<and> l \<in> set dr \<and> status l = mined"
proof -
  from assms have "d \<in> set (rev (filter (\<lambda>d. status d = mined) dr))" by simp
  then obtain l ls where eq: "rev (filter (\<lambda>d. status d = mined) dr) = l # ls"
    by (cases "rev (filter (\<lambda>d. status d = mined) dr)") auto
  then have "l \<in> set (rev (filter (\<lambda>d. status d = mined) dr))" by simp
  then have "l \<in> set dr \<and> status l = mined" by simp
  with eq show ?thesis by (simp add: lastMinedTx_def)
qed

lemma isPlain_unaryPlus: "isPlain (unaryPlus x)"
  by (cases x) simp_all

section \<open>The starting nonce\<close>

text \<open>
  Whenever the collection holds a mined request, the pass ends in the \<open>TypeError\<close> of
  \<open>lastMinedTx[0].nonce\<close>, before any request is looked at.
\<close>

lemma syncAndPublish_mined_raises:
  assumes "d \<in> set dr" and "status d = mined" and "getWallet env w = (Inr wal, w1)"
  shows "syncAndPublish env dr w = Some (Inl typeError, w1)"
proof -
  from lastMinedTx_Some[OF assms(1,2)] obtain l where "lastMinedTx dr = Some l" by blast
  with assms(3) show ?thesis
    by (simp add: syncAndPublish_def initNextNonce_def index0_def)
qed

text \<open>
  C1 (resume correctness). The claim: with a mined request in the store, the starting
  nonce of a pass is the nonce of the most recent mined request plus 1. On the code, with
  the single mined request of nonce 5 in the store, the pass throws a \<open>TypeError\<close> and no
  starting nonce is set; in particular it is not 6.
\<close>

theorem resume_raises_TypeError:
  "syncAndPublish exampleEnv [exampleRequest\<lparr>status := mined, nonce := Some (Num 5)\<rparr>] 0
     = Some (Inl typeError, 1)
   \<and> initNextNonce exampleEnv \<lparr>address = ''0xrelayer''\<rparr>
       (lastMinedTx [exampleRequest\<lparr>status := mined, nonce := Some (Num 5)\<rparr>]) 1
     \<noteq> (Inr (Num 6), 1)"
  by (simp add: syncAndPublish_def initNextNonce_def index0_def lastMinedTx_def
      exampleEnv_def exampleRequest_def)

text \<open>
  C6 (bootstrap correctness), as the code has it. With no mined request in the store, the
  starting nonce is the transaction count that the provider reports for the address of
  the relayer's wallet when it is asked with the address only, as the call
  \<open>provider.getTransactionCount(delegateWallet.address)\<close> does; the loop over the queue
  starts from that count.
\<close>

theorem bootstrap_cursor:
  assumes "\<forall>d \<in> set dr. status d \<noteq> mined"
    and "getWallet env w = (Inr delegateWallet, w1)"
  shows "initNextNonce env delegateWallet (lastMinedTx dr) w1
           = getTransactionCount env (address delegateWallet) None w1
       \<and> (getTransactionCount env (address delegateWallet) None w1 = (Inr n, w2) \<longrightarrow>
            syncAndPublish env dr w = traverse env (requestQueue dr None) dr n w2)"
proof -
  from assms(1) have lm: "lastMinedTx dr = None" by (rule lastMinedTx_None)
  then have init: "initNextNonce env delegateWallet (lastMinedTx dr) w1
                     = getTransactionCount env (address delegateWallet) None w1"
    by (simp add: initNextNonce_def)
  from lm init assms(2) show ?thesis
    by (simp add: syncAndPublish_def)
qed

theorem bootstrap_cursor_witness:
  "status exampleRequest = confirmed
   \<and> getWallet exampleEnv 0 = (Inr \<lparr>address = ''0xrelayer''\<rparr>, 1)
   \<and> getTransactionCount exampleEnv ''0xrelayer'' None 1 = (Inr (Num 10), 2)
   \<and> initNextNonce exampleEnv \<lparr>address = ''0xrelayer''\<rparr> (lastMinedTx [exampleRequest]) 1
       = (Inr (Num 10), 2)
   \<and> syncAndPublish exampleEnv [exampleRequest] 0
       = traverse exampleEnv (requestQueue [exampleRequest] None) [exampleRequest] (Num 10) 2"
proof -
  have h1: "\<forall>d \<in> set [exampleRequest]. status d \<noteq> mined" by (simp add: ex_defs)
  have h2: "getWallet exampleEnv 0 = (Inr \<lparr>address = ''0xrelayer''\<rparr>, 1)"
    by (simp add: ex_defs)
  have h3: "getTransactionCount exampleEnv ''0xrelayer'' None 1 = (Inr (Num 10), 2)"
    by (simp add: ex_defs)
  have h0: "status exampleRequest = confirmed" by (simp add: ex_defs)
  from bootstrap_cursor [OF h1 h2, of "Num 10" 2] h0 h2 h3 show ?thesis by simp
qed

text \<open>
  The claim as written, that the starting nonce is the count with the pending transactions
  in it, fails on a provider that leaves them out when no block is named: with no mined
  request in the store, a count of 10 for the address alone and a count of 12 for the
  pending block, the pass starts from 10.
\<close>

theorem bootstrap_not_pending_count:
  "lastMinedTx [exampleRequest] = None
   \<and> getTransactionCount exampleEnv ''0xrelayer'' (Some pending) 1 = (Inr (Num 12), 2)
   \<and> initNextNonce exampleEnv \<lparr>address = ''0xrelayer''\<rparr> (lastMinedTx [exampleRequest]) 1
       = (Inr (Num 10), 2)
   \<and> initNextNonce exampleEnv \<lparr>address = ''0xrelayer''\<rparr> (lastMinedTx [exampleRequest]) 1
       \<noteq> getTransactionCount exampleEnv ''0xrelayer'' (Some pending) 1"
  by (simp add: initNextNonce_def lastMinedTx_def ex_defs)

section \<open>The publisher\<close>

text \<open>
  Every result of the loop that started from a number is a number, the start plus the
  number of conflicts met.
\<close>

lemma publishLoop_returns_ge:
  assumes "publishLoop env ct r n w = Some res"
  shows "\<forall>c h m w'. n = Num c \<longrightarrow> res = (Inr (h, m), w') \<longrightarrow> (\<exists>k::nat. m = Num (c + int k))"
proof (rule publishLoop.raw_induct
    [where P = "\<lambda>env ct r n w res. \<forall>c h m w'. n = Num c \<longrightarrow> res = (Inr (h, m), w')
                  \<longrightarrow> (\<exists>k::nat. m = Num (c + int k))", OF _ assms])
  fix f :: "'a env \<Rightarrow> string \<Rightarrow> request \<Rightarrow> jsnum \<Rightarrow> 'a \<Rightarrow> ((jserror + string \<times> jsnum) \<times> 'a) option"
  fix env ct r n w res
  assume IH: "\<And>env ct r n w res. f env ct r n w = Some res \<Longrightarrow>
     \<forall>c h m w'. n = Num c \<longrightarrow> res = (Inr (h, m), w') \<longrightarrow> (\<exists>k::nat. m = Num (c + int k))"
  assume body: "(case callContract env ct r n w of
      (Inl e, w') \<Rightarrow>
        if code e = Some (NONCE_EXPIRED (errorCode env)) \<or>
           code e = Some (REPLACEMENT_UNDERPRICED (errorCode env))
        then f env ct r (inc n) w' else Some (Inl e, w')
      | (Inr h, w') \<Rightarrow> Some (Inr (h, n), w')) = Some res"
  show "\<forall>c h m w'. n = Num c \<longrightarrow> res = (Inr (h, m), w') \<longrightarrow> (\<exists>k::nat. m = Num (c + int k))"
  proof (intro allI impI)
    fix c h m w'
    assume n: "n = Num c" and res: "res = (Inr (h, m), w')"
    obtain x w1 where call: "callContract env ct r n w = (x, w1)"
      by (cases "callContract env ct r n w")
    show "\<exists>k::nat. m = Num (c + int k)"
    proof (cases x)
      case (Inr h')
      with body call res n have "m = Num (c + int 0)" by simp
      then show ?thesis by blast
    next
      case (Inl e)
      with body call res have rec: "f env ct r (inc n) w1 = Some res"
        by (simp split: if_splits)
      from IH[OF rec] n res obtain k :: nat where "m = Num (c + 1 + int k)"
        by auto
      then have "m = Num (c + int (Suc k))" by simp
      then show ?thesis by blast
    qed
  qed
qed

text \<open>
  C9 (publisher nonce monotonicity). A call of \<open>publishTransaction\<close> with the candidate
  nonce \<open>c\<close> that succeeds returns a nonce \<open>n = c + k\<close> for a natural number \<open>k\<close> (one
  for each conflict met), so \<open>n\<close> is never less than \<open>c\<close>.
\<close>

theorem publisher_nonce_monotone:
  assumes "publishTransaction env r (Num c) w = Some (Inr (h, m), w1)"
  shows "\<exists>n (k::nat). m = Num n \<and> n = c + int k \<and> c \<le> n"
proof -
  obtain x w0 where g: "getContract env (contractAddress (reqContext r)) w = (x, w0)"
    by (cases "getContract env (contractAddress (reqContext r)) w")
  show ?thesis
  proof (cases x)
    case (Inl e)
    with assms g show ?thesis by (simp add: publishTransaction_def)
  next
    case (Inr ct)
    with assms g have "publishLoop env ct r (Num c) w0 = Some (Inr (h, m), w1)"
      by (simp add: publishTransaction_def)
    from publishLoop_returns_ge [OF this] obtain k :: nat where "m = Num (c + int k)"
      by blast
    then have "m = Num (c + int k) \<and> c + int k = c + int k \<and> c \<le> c + int k"
      by simp
    then show ?thesis by blast
  qed
qed

theorem publisher_nonce_monotone_witness:
  "publishTransaction exampleEnv exampleRequest (Num 10) 0 = Some (Inr (''0xcc'', Num 11), 3)
   \<and> (\<exists>n (k::nat). Num 11 = Num n \<and> n = 10 + int k \<and> (10::int) \<le> n)"
proof -
  have p: "publishTransaction exampleEnv exampleRequest (Num 10) 0
             = Some (Inr (''0xcc'', Num 11), 3)"
    by (simp add: publishTransaction_def publishLoop.simps ex_defs)
  from publisher_nonce_monotone [OF p] p show ?thesis by simp
qed

text \<open>
  C4 (retry semantics of the publisher). With the contract found: on a submission that
  fails with the nonce-expired or the replacement-underpriced code, \<open>publishTransaction\<close>
  goes on as its loop from the candidate plus 1; on a submission that fails with any other
  error, that error is its result; on a submission that succeeds, it returns the hash and
  the candidate just used. On a success of \<open>publishTransaction\<close> for a confirmed request,
  the loop body stores the status mining with the returned hash and nonce and sets the
  cursor to the returned nonce plus 1.
\<close>

theorem publish_retry_semantics:
  assumes "getContract env (contractAddress (reqContext r)) w = (Inr ct, w0)"
  shows "(callContract env ct r n w0 = (Inl e, w1) \<longrightarrow>
            (code e = Some (NONCE_EXPIRED (errorCode env))
             \<or> code e = Some (REPLACEMENT_UNDERPRICED (errorCode env))) \<longrightarrow>
            publishTransaction env r n w = publishLoop env ct r (inc n) w1)
       \<and> (callContract env ct r n w0 = (Inl e, w1) \<longrightarrow>
            \<not> (code e = Some (NONCE_EXPIRED (errorCode env))
               \<or> code e = Some (REPLACEMENT_UNDERPRICED (errorCode env))) \<longrightarrow>
            publishTransaction env r n w = Some (Inl e, w1))
       \<and> (callContract env ct r n w0 = (Inr h, w1) \<longrightarrow>
            publishTransaction env r n w = Some (Inr (h, n), w1))
       \<and> (status r = confirmed \<longrightarrow>
            publishTransaction env r n w = Some (Inr (h', m), w2) \<longrightarrow>
            processRequest env r dr n w
              = Some (Inr (findOneAndUpdate dr (oid r)
                             \<lparr>setStatus = Some mining, setTxReceipt = None,
                              setNonce = Some m, setTransactionHash = Some h',
                              setReason = None\<rparr>, inc m), w2))"
proof (intro conjI impI)
  assume "callContract env ct r n w0 = (Inl e, w1)"
    and "code e = Some (NONCE_EXPIRED (errorCode env))
         \<or> code e = Some (REPLACEMENT_UNDERPRICED (errorCode env))"
  with assms show "publishTransaction env r n w = publishLoop env ct r (inc n) w1"
    by (simp add: publishTransaction_def publishLoop.simps [of env ct r n w0])
next
  assume "callContract env ct r n w0 = (Inl e, w1)"
    and "\<not> (code e = Some (NONCE_EXPIRED (errorCode env))
         \<or> code e = Some (REPLACEMENT_UNDERPRICED (errorCode env)))"
  with assms show "publishTransaction env r n w = Some (Inl e, w1)"
    by (simp add: publishTransaction_def publishLoop.simps [of env ct r n w0])
next
  assume "callContract env ct r n w0 = (Inr h, w1)"
  with assms show "publishTransaction env r n w = Some (Inr (h, n), w1)"
    by (simp add: publishTransaction_def publishLoop.simps [of env ct r n w0])
next
  assume "status r = confirmed" and "publishTransaction env r n w = Some (Inr (h', m), w2)"
  then show "processRequest env r dr n w
              = Some (Inr (findOneAndUpdate dr (oid r)
                             \<lparr>setStatus = Some mining, setTxReceipt = None,
                              setNonce = Some m, setTransactionHash = Some h',
                              setReason = None\<rparr>, inc m), w2)"
    by (simp add: processRequest_def)
qed

theorem publish_retry_semantics_witness:
  "getContract exampleEnv (contractAddress (reqContext exampleRequest)) 0 = (Inr ''0xtoken'', 1)
   \<and> callContract exampleEnv ''0xtoken'' exampleRequest (Num 10) 1
       = (Inl \<lparr>code = Some ''NONCE_EXPIRED'',
               toString = ''Error: nonce has already been used''\<rparr>, 2)
   \<and> publishTransaction exampleEnv exampleRequest (Num 10) 0
       = publishLoop exampleEnv ''0xtoken'' exampleRequest (Num 11) 2
   \<and> callContract exampleEnv ''0xtoken'' exampleRequest (Num 11) 1 = (Inr ''0xcc'', 2)
   \<and> publishTransaction exampleEnv exampleRequest (Num 11) 0 = Some (Inr (''0xcc'', Num 11), 2)
   \<and> callContract exampleEnv ''0xtoken'' revertRequest (Num 10) 1
       = (Inl \<lparr>code = Some ''CALL_EXCEPTION'', toString = ''Error: call revert exception''\<rparr>, 2)
   \<and> publishTransaction exampleEnv revertRequest (Num 10) 0
       = Some (Inl \<lparr>code = Some ''CALL_EXCEPTION'',
                    toString = ''Error: call revert exception''\<rparr>, 2)
   \<and> publishTransaction exampleEnv exampleRequest (Num 10) 0 = Some (Inr (''0xcc'', Num 11), 3)
   \<and> processRequest exampleEnv exampleRequest [exampleRequest] (Num 10) 0
       = Some (Inr ([exampleRequest\<lparr>status := mining, nonce := Some (Num 11),
                                     transactionHash := Some ''0xcc''\<rparr>], Num 12), 3)"
proof -
  have g: "getContract exampleEnv (contractAddress (reqContext exampleRequest)) 0
             = (Inr ''0xtoken'', 1)"
    by (simp add: ex_defs)
  have g': "getContract exampleEnv (contractAddress (reqContext revertRequest)) 0
             = (Inr ''0xtoken'', 1)"
    by (simp add: ex_defs)
  have c10: "callContract exampleEnv ''0xtoken'' exampleRequest (Num 10) 1
               = (Inl \<lparr>code = Some ''NONCE_EXPIRED'',
                       toString = ''Error: nonce has already been used''\<rparr>, 2)"
    by (simp add: ex_defs)
  have c11: "callContract exampleEnv ''0xtoken'' exampleRequest (Num 11) 1 = (Inr ''0xcc'', 2)"
    by (simp add: ex_defs)
  have cr: "callContract exampleEnv ''0xtoken'' revertRequest (Num 10) 1
               = (Inl \<lparr>code = Some ''CALL_EXCEPTION'',
                       toString = ''Error: call revert exception''\<rparr>, 2)"
    by (simp add: ex_defs)
  have codes: "NONCE_EXPIRED (errorCode exampleEnv) = ''NONCE_EXPIRED''"
    "REPLACEMENT_UNDERPRICED (errorCode exampleEnv) = ''REPLACEMENT_UNDERPRICED''"
    by (simp_all add: ex_defs)
  have st: "status exampleRequest = confirmed" by (simp add: ex_defs)
  have p10: "publishTransaction exampleEnv exampleRequest (Num 10) 0
               = Some (Inr (''0xcc'', Num 11), 3)"
    by (simp add: publishTransaction_def publishLoop.simps ex_defs)
  have upd: "findOneAndUpdate [exampleRequest] (oid exampleRequest)
               \<lparr>setStatus = Some mining, setTxReceipt = None, setNonce = Some (Num 11),
                setTransactionHash = Some ''0xcc'', setReason = None\<rparr>
             = [exampleRequest\<lparr>status := mining, nonce := Some (Num 11),
                                transactionHash := Some ''0xcc''\<rparr>]"
    by (simp add: applySet_def ex_defs)
  note A = publish_retry_semantics [OF g, where n = "Num 10" and ?w1.0 = 2
      and e = "\<lparr>code = Some ''NONCE_EXPIRED'',
                 toString = ''Error: nonce has already been used''\<rparr>"
      and h = "''0xcc''" and h' = "''0xcc''" and m = "Num 11" and ?w2.0 = 3
      and dr = "[exampleRequest]"]
  note B = publish_retry_semantics [OF g, where n = "Num 11" and ?w1.0 = 2
      and e = "\<lparr>code = Some ''NONCE_EXPIRED'',
                 toString = ''Error: nonce has already been used''\<rparr>"
      and h = "''0xcc''" and h' = "''0xcc''" and m = "Num 11" and ?w2.0 = 3
      and dr = "[exampleRequest]"]
  note C = publish_retry_semantics [OF g', where n = "Num 10" and ?w1.0 = 2
      and e = "\<lparr>code = Some ''CALL_EXCEPTION'', toString = ''Error: call revert exception''\<rparr>"
      and h = "''0xcc''" and h' = "''0xcc''" and m = "Num 11" and ?w2.0 = 3
      and dr = "[revertRequest]"]
  from A c10 codes have 1: "publishTransaction exampleEnv exampleRequest (Num 10) 0
       = publishLoop exampleEnv ''0xtoken'' exampleRequest (Num 11) 2"
    by simp
  from B c11 have 2: "publishTransaction exampleEnv exampleRequest (Num 11) 0
       = Some (Inr (''0xcc'', Num 11), 2)"
    by simp
  from C cr codes have 3: "publishTransaction exampleEnv revertRequest (Num 10) 0
       = Some (Inl \<lparr>code = Some ''CALL_EXCEPTION'',
                    toString = ''Error: call revert exception''\<rparr>, 2)"
    by simp
  from A st p10 upd have 4: "processRequest exampleEnv exampleRequest [exampleRequest] (Num 10) 0
       = Some (Inr ([exampleRequest\<lparr>status := mining, nonce := Some (Num 11),
                                     transactionHash := Some ''0xcc''\<rparr>], Num 12), 3)"
    by simp
  from g c10 1 c11 2 cr 3 p10 4 show ?thesis by simp
qed

section \<open>The loop body\<close>

text \<open>
  C2 (cursor below the threshold). The claim: for a mining request whose receipt has fewer
  confirmations than required, the cursor becomes the request's nonce plus 1 whenever a
  nonce is recorded, nonce 0 included. On the code, a request with the recorded nonce 0
  and a receipt of 2 confirmations (3 required), reached with the cursor at 1, leaves the
  cursor at 2, where the recorded nonce plus 1 is 1. The request stays as it is.
\<close>

theorem below_threshold_nonce_zero:
  "processRequest exampleEnv
     (exampleRequest\<lparr>status := mining, nonce := Some (Num 0), transactionHash := Some ''0xaa''\<rparr>)
     [exampleRequest\<lparr>status := mining, nonce := Some (Num 0), transactionHash := Some ''0xaa''\<rparr>]
     (Num 1) 0
   = Some (Inr ([exampleRequest\<lparr>status := mining, nonce := Some (Num 0),
                                  transactionHash := Some ''0xaa''\<rparr>], Num 2), 1)
   \<and> plusOne (Some (Num 0)) = Num 1"
  by (simp add: processRequest_def exampleEnv_def exampleRequest_def)

text \<open>
  C5 (confirmation gating). For a mining request: when the receipt has at least the
  required confirmations and the transaction is found, the update stores the status
  mined, the receipt with \<open>gasUsed\<close> and \<open>cumulativeGasUsed\<close> as plain numbers, and the
  nonce of the transaction that the chain returned; the stored document is the old one
  with these three fields set, and the cursor is that nonce plus 1, whatever the cursor
  was. When the receipt has fewer confirmations, or there is no receipt, the collection
  is left as it is, so the request stays mining.
\<close>

theorem confirmation_gating:
  assumes "status r = mining"
  shows "(getTransactionReceipt env (transactionHash r) w = (Inr (Some rc), w1) \<longrightarrow>
          requiredConfirmations env \<le> confirmations rc \<longrightarrow>
          getTransaction env (transactionHash r) w1 = (Inr (Some tx), w2) \<longrightarrow>
            (\<exists>dr1. processRequest env r dr c w = Some (Inr (dr1, inc (txNonce tx)), w2)
               \<and> dr1 = findOneAndUpdate dr (oid r)
                         \<lparr>setStatus = Some mined, setTxReceipt = Some (deBignumberify rc),
                          setNonce = Some (txNonce tx), setTransactionHash = None,
                          setReason = None\<rparr>
               \<and> (\<forall>d. findOne dr (oid r) = Some d \<longrightarrow>
                     findOne dr1 (oid r)
                       = Some (d\<lparr>status := mined, txReceipt := Some (deBignumberify rc),
                                 nonce := Some (txNonce tx)\<rparr>)))
            \<and> isPlain (gasUsed (deBignumberify rc))
            \<and> isPlain (cumulativeGasUsed (deBignumberify rc))
            \<and> gasUsed (deBignumberify rc) = unaryPlus (gasUsed rc)
            \<and> cumulativeGasUsed (deBignumberify rc) = unaryPlus (cumulativeGasUsed rc)
            \<and> confirmations (deBignumberify rc) = confirmations rc)
       \<and> (getTransactionReceipt env (transactionHash r) w = (Inr (Some rc), w1) \<longrightarrow>
          confirmations rc < requiredConfirmations env \<longrightarrow>
            (\<exists>c'. processRequest env r dr c w = Some (Inr (dr, c'), w1)))
       \<and> (getTransactionReceipt env (transactionHash r) w = (Inr None, w1) \<longrightarrow>
            (\<exists>c'. processRequest env r dr c w = Some (Inr (dr, c'), w1)))"
proof (intro conjI impI)
  assume rcpt: "getTransactionReceipt env (transactionHash r) w = (Inr (Some rc), w1)"
    and ge: "requiredConfirmations env \<le> confirmations rc"
    and tx: "getTransaction env (transactionHash r) w1 = (Inr (Some tx), w2)"
  from assms rcpt ge tx
  have step: "processRequest env r dr c w
          = Some (Inr (findOneAndUpdate dr (oid r)
                         \<lparr>setStatus = Some mined, setTxReceipt = Some (deBignumberify rc),
                          setNonce = Some (txNonce tx), setTransactionHash = None,
                          setReason = None\<rparr>,
                       inc (txNonce tx)), w2)"
    by (simp add: processRequest_def)
  have doc: "\<forall>d. findOne dr (oid r) = Some d \<longrightarrow>
          findOne (findOneAndUpdate dr (oid r)
                     \<lparr>setStatus = Some mined, setTxReceipt = Some (deBignumberify rc),
                      setNonce = Some (txNonce tx), setTransactionHash = None,
                      setReason = None\<rparr>) (oid r)
            = Some (d\<lparr>status := mined, txReceipt := Some (deBignumberify rc),
                      nonce := Some (txNonce tx)\<rparr>)"
    by (simp add: findOne_findOneAndUpdate applySet_def)
  from step doc
  show "\<exists>dr1. processRequest env r dr c w = Some (Inr (dr1, inc (txNonce tx)), w2)
               \<and> dr1 = findOneAndUpdate dr (oid r)
                         \<lparr>setStatus = Some mined, setTxReceipt = Some (deBignumberify rc),
                          setNonce = Some (txNonce tx), setTransactionHash = None,
                          setReason = None\<rparr>
               \<and> (\<forall>d. findOne dr (oid r) = Some d \<longrightarrow>
                     findOne dr1 (oid r)
                       = Some (d\<lparr>status := mined, txReceipt := Some (deBignumberify rc),
                                 nonce := Some (txNonce tx)\<rparr>))"
    by blast
  show "isPlain (gasUsed (deBignumberify rc))"
    by (simp add: deBignumberify_def isPlain_unaryPlus)
  show "isPlain (cumulativeGasUsed (deBignumberify rc))"
    by (simp add: deBignumberify_def isPlain_unaryPlus)
  show "gasUsed (deBignumberify rc) = unaryPlus (gasUsed rc)"
    by (simp add: deBignumberify_def)
  show "cumulativeGasUsed (deBignumberify rc) = unaryPlus (cumulativeGasUsed rc)"
    by (simp add: deBignumberify_def)
  show "confirmations (deBignumberify rc) = confirmations rc"
    by (simp add: deBignumberify_def)
next
  assume "getTransactionReceipt env (transactionHash r) w = (Inr (Some rc), w1)"
    and "confirmations rc < requiredConfirmations env"
  with assms show "\<exists>c'. processRequest env r dr c w = Some (Inr (dr, c'), w1)"
    by (simp add: processRequest_def)
next
  assume "getTransactionReceipt env (transactionHash r) w = (Inr None, w1)"
  with assms show "\<exists>c'. processRequest env r dr c w = Some (Inr (dr, c'), w1)"
    by (simp add: processRequest_def)
qed

theorem confirmation_gating_witness:
  "status (miningRequest ''0xbb'') = mining
   \<and> processRequest exampleEnv (miningRequest ''0xbb'') [miningRequest ''0xbb''] (Num 4) 0
       = Some (Inr ([miningRequest ''0xbb''
                       \<lparr>status := mined,
                        txReceipt := Some \<lparr>confirmations = 5, gasUsed = Number (Num 21000),
                                            cumulativeGasUsed = Number (Num 50000)\<rparr>,
                        nonce := Some (Num 7)\<rparr>], Num 8), 2)
   \<and> (\<exists>c'. processRequest exampleEnv (miningRequest ''0xaa'') [miningRequest ''0xaa''] (Num 4) 0
              = Some (Inr ([miningRequest ''0xaa''], c'), 1))
   \<and> (\<exists>c'. processRequest exampleEnv (miningRequest ''0xdd'') [miningRequest ''0xdd''] (Num 4) 0
              = Some (Inr ([miningRequest ''0xdd''], c'), 1))"
proof -
  have st: "\<And>h. status (miningRequest h) = mining"
    by (simp add: miningRequest_def ex_defs)
  have th: "\<And>h. transactionHash (miningRequest h) = Some h"
    by (simp add: miningRequest_def ex_defs)
  have thr: "requiredConfirmations exampleEnv = 3" by (simp add: ex_defs)
  have rb: "getTransactionReceipt exampleEnv (Some ''0xbb'') 0
              = (Inr (Some \<lparr>confirmations = 5, gasUsed = BigNumber 21000,
                            cumulativeGasUsed = BigNumber 50000\<rparr>), 1)"
    by (simp add: ex_defs)
  have ra: "getTransactionReceipt exampleEnv (Some ''0xaa'') 0
              = (Inr (Some \<lparr>confirmations = 2, gasUsed = BigNumber 21000,
                            cumulativeGasUsed = BigNumber 50000\<rparr>), 1)"
    by (simp add: ex_defs)
  have rd: "getTransactionReceipt exampleEnv (Some ''0xdd'') 0 = (Inr None, 1)"
    by (simp add: ex_defs)
  have tb: "getTransaction exampleEnv (Some ''0xbb'') 1 = (Inr (Some \<lparr>txNonce = Num 7\<rparr>), 2)"
    by (simp add: ex_defs)
  have fo: "findOne [miningRequest ''0xbb''] (oid (miningRequest ''0xbb''))
              = Some (miningRequest ''0xbb'')"
    by simp
  have upd: "findOneAndUpdate [miningRequest ''0xbb''] (oid (miningRequest ''0xbb''))
               \<lparr>setStatus = Some mined,
                setTxReceipt = Some (deBignumberify \<lparr>confirmations = 5, gasUsed = BigNumber 21000,
                            cumulativeGasUsed = BigNumber 50000\<rparr>),
                setNonce = Some (Num 7), setTransactionHash = None, setReason = None\<rparr>
             = [miningRequest ''0xbb''
                       \<lparr>status := mined,
                        txReceipt := Some \<lparr>confirmations = 5, gasUsed = Number (Num 21000),
                                            cumulativeGasUsed = Number (Num 50000)\<rparr>,
                        nonce := Some (Num 7)\<rparr>]"
    by (simp add: applySet_def deBignumberify_def miningRequest_def ex_defs)
  note B = confirmation_gating [OF st [of "''0xbb''"],
      where env = exampleEnv and w = 0 and ?w1.0 = 1 and ?w2.0 = 2 and c = "Num 4"
        and dr = "[miningRequest ''0xbb'']" and tx = "\<lparr>txNonce = Num 7\<rparr>"
        and rc = "\<lparr>confirmations = 5, gasUsed = BigNumber 21000,
                    cumulativeGasUsed = BigNumber 50000\<rparr>"]
  note A = confirmation_gating [OF st [of "''0xaa''"],
      where env = exampleEnv and w = 0 and ?w1.0 = 1 and c = "Num 4"
        and dr = "[miningRequest ''0xaa'']"
        and rc = "\<lparr>confirmations = 2, gasUsed = BigNumber 21000,
                    cumulativeGasUsed = BigNumber 50000\<rparr>"]
  note D = confirmation_gating [OF st [of "''0xdd''"],
      where env = exampleEnv and w = 0 and ?w1.0 = 1 and c = "Num 4"
        and dr = "[miningRequest ''0xdd'']"]
  from B rb tb thr th upd
  have 1: "processRequest exampleEnv (miningRequest ''0xbb'') [miningRequest ''0xbb''] (Num 4) 0
       = Some (Inr ([miningRequest ''0xbb''
                       \<lparr>status := mined,
                        txReceipt := Some \<lparr>confirmations = 5, gasUsed = Number (Num 21000),
                                            cumulativeGasUsed = Number (Num 50000)\<rparr>,
                        nonce := Some (Num 7)\<rparr>], Num 8), 2)"
    by simp
  from A ra thr th
  have 2: "\<exists>c'. processRequest exampleEnv (miningRequest ''0xaa'') [miningRequest ''0xaa''] (Num 4) 0
              = Some (Inr ([miningRequest ''0xaa''], c'), 1)"
    by simp
  from D rd th
  have 3: "\<exists>c'. processRequest exampleEnv (miningRequest ''0xdd'') [miningRequest ''0xdd''] (Num 4) 0
              = Some (Inr ([miningRequest ''0xdd''], c'), 1)"
    by simp
  from st 1 2 3 show ?thesis by simp
qed

text \<open>
  C3 (failure isolation). When the publish attempt of a confirmed request raises, the body
  of the loop returns the cursor it was given and the pass does not stop there: a queue
  that ends with this request ends the loop normally with that cursor, and on a longer
  queue the next request is the one processed next, from that same cursor and the
  collection as the failure update left it.
\<close>

theorem failure_isolation:
  assumes "status r = confirmed"
    and "publishTransaction env r c w = Some (Inl e, w1)"
  shows "\<exists>dr1. processRequest env r dr c w = Some (Inr (dr1, c), w1)
           \<and> traverse env (r # rest) dr c w = traverse env rest dr1 c w1
           \<and> traverse env [r] dr c w = Some (Inr (dr1, c), w1)
           \<and> traverse env (r # r2 # rest) dr c w
               = (case processRequest env r2 dr1 c w1 of
                    None \<Rightarrow> None
                  | Some (Inl e2, w2) \<Rightarrow> Some (Inl e2, w2)
                  | Some (Inr (dr2, c2), w2) \<Rightarrow> traverse env rest dr2 c2 w2)"
proof -
  from assms obtain dr1 where step: "processRequest env r dr c w = Some (Inr (dr1, c), w1)"
    by (simp add: processRequest_def)
  have "traverse env (r # rest) dr c w = traverse env rest dr1 c w1"
    by (simp add: step)
  moreover have "traverse env [r] dr c w = Some (Inr (dr1, c), w1)"
    by (simp add: step)
  moreover have "traverse env (r # r2 # rest) dr c w
               = (case processRequest env r2 dr1 c w1 of
                    None \<Rightarrow> None
                  | Some (Inl e2, w2) \<Rightarrow> Some (Inl e2, w2)
                  | Some (Inr (dr2, c2), w2) \<Rightarrow> traverse env rest dr2 c2 w2)"
    by (simp add: step)
  ultimately show ?thesis using step by blast
qed

theorem failure_isolation_witness:
  "status drainRequest = confirmed
   \<and> publishTransaction exampleEnv drainRequest (Num 10) 0
       = Some (Inl \<lparr>code = Some ''INSUFFICIENT_FUNDS'',
                    toString = ''Error: insufficient funds''\<rparr>, 2)
   \<and> processRequest exampleEnv drainRequest [drainRequest, exampleRequest] (Num 10) 0
       = Some (Inr ([drainRequest\<lparr>status := failed,
                       reason := Some ''Delegate account has no Ether on its balance''\<rparr>,
                     exampleRequest], Num 10), 2)
   \<and> traverse exampleEnv [drainRequest] [drainRequest, exampleRequest] (Num 10) 0
       = Some (Inr ([drainRequest\<lparr>status := failed,
                       reason := Some ''Delegate account has no Ether on its balance''\<rparr>,
                     exampleRequest], Num 10), 2)
   \<and> traverse exampleEnv [drainRequest, exampleRequest] [drainRequest, exampleRequest]
         (Num 10) 0
       = Some (Inr ([drainRequest\<lparr>status := failed,
                       reason := Some ''Delegate account has no Ether on its balance''\<rparr>,
                     exampleRequest\<lparr>status := mining, nonce := Some (Num 11),
                                    transactionHash := Some ''0xcc''\<rparr>], Num 12), 5)"
proof -
  have h1: "status drainRequest = confirmed"
    by (simp add: ex_defs)
  have h2: "publishTransaction exampleEnv drainRequest (Num 10) 0
              = Some (Inl \<lparr>code = Some ''INSUFFICIENT_FUNDS'',
                           toString = ''Error: insufficient funds''\<rparr>, 2)"
    by (simp add: publishTransaction_def publishLoop.simps ex_defs)
  have step: "processRequest exampleEnv drainRequest [drainRequest, exampleRequest] (Num 10) 0
       = Some (Inr ([drainRequest\<lparr>status := failed,
                       reason := Some ''Delegate account has no Ether on its balance''\<rparr>,
                     exampleRequest], Num 10), 2)"
    by (simp add: processRequest_def publishTransaction_def publishLoop.simps applySet_def
        ex_defs)
  have next_step: "processRequest exampleEnv exampleRequest
         [drainRequest\<lparr>status := failed,
            reason := Some ''Delegate account has no Ether on its balance''\<rparr>,
          exampleRequest] (Num 10) 2
       = Some (Inr ([drainRequest\<lparr>status := failed,
                       reason := Some ''Delegate account has no Ether on its balance''\<rparr>,
                     exampleRequest\<lparr>status := mining, nonce := Some (Num 11),
                                    transactionHash := Some ''0xcc''\<rparr>], Num 12), 5)"
    by (simp add: processRequest_def publishTransaction_def publishLoop.simps applySet_def
        ex_defs)
  from failure_isolation [OF h1 h2, where dr = "[drainRequest, exampleRequest]"
      and ?r2.0 = exampleRequest and rest = "[]"]
  obtain dr1 where
    a: "processRequest exampleEnv drainRequest [drainRequest, exampleRequest] (Num 10) 0
          = Some (Inr (dr1, Num 10), 2)"
    and b: "traverse exampleEnv [drainRequest] [drainRequest, exampleRequest] (Num 10) 0
          = Some (Inr (dr1, Num 10), 2)"
    and c: "traverse exampleEnv [drainRequest, exampleRequest] [drainRequest, exampleRequest]
              (Num 10) 0
          = (case processRequest exampleEnv exampleRequest dr1 (Num 10) 2 of
               None \<Rightarrow> None
             | Some (Inl e2, w2) \<Rightarrow> Some (Inl e2, w2)
             | Some (Inr (dr2, c2), w2) \<Rightarrow> traverse exampleEnv [] dr2 c2 w2)"
    by blast
  from a step have dr1: "dr1 = [drainRequest\<lparr>status := failed,
                       reason := Some ''Delegate account has no Ether on its balance''\<rparr>,
                     exampleRequest]"
    by simp
  from c have c': "traverse exampleEnv [drainRequest, exampleRequest]
         [drainRequest, exampleRequest] (Num 10) 0
       = Some (Inr ([drainRequest\<lparr>status := failed,
                       reason := Some ''Delegate account has no Ether on its balance''\<rparr>,
                     exampleRequest\<lparr>status := mining, nonce := Some (Num 11),
                                    transactionHash := Some ''0xcc''\<rparr>], Num 12), 5)"
    unfolding dr1 next_step by simp
  from b have b': "traverse exampleEnv [drainRequest] [drainRequest, exampleRequest] (Num 10) 0
       = Some (Inr ([drainRequest\<lparr>status := failed,
                       reason := Some ''Delegate account has no Ether on its balance''\<rparr>,
                     exampleRequest], Num 10), 2)"
    unfolding dr1 .
  from h1 h2 step b' c' show ?thesis by simp
qed

text \<open>
  C7 (failure reason). When the publish attempt of a confirmed request raises \<open>e\<close>, the
  update stores the status failed and a reason. The reason is the balance message exactly
  when the code of \<open>e\<close> is the insufficient-funds code; otherwise it is the description of
  \<open>e\<close> after the words ``Transaction error when publishing: ''.
\<close>

theorem failure_reason:
  assumes "status r = confirmed"
    and "publishTransaction env r c w = Some (Inl e, w1)"
  shows "\<exists>msg. processRequest env r dr c w
                  = Some (Inr (findOneAndUpdate dr (oid r)
                                 \<lparr>setStatus = Some failed, setTxReceipt = None,
                                  setNonce = None, setTransactionHash = None,
                                  setReason = Some msg\<rparr>, c), w1)
              \<and> (msg = ''Delegate account has no Ether on its balance''
                   \<longleftrightarrow> code e = Some (INSUFFICIENT_FUNDS (errorCode env)))
              \<and> (code e \<noteq> Some (INSUFFICIENT_FUNDS (errorCode env)) \<longrightarrow>
                   msg = ''Transaction error when publishing: '' @ toString e)"
proof (cases "code e = Some (INSUFFICIENT_FUNDS (errorCode env))")
  case True
  with assms have "processRequest env r dr c w
                  = Some (Inr (findOneAndUpdate dr (oid r)
                                 \<lparr>setStatus = Some failed, setTxReceipt = None,
                                  setNonce = None, setTransactionHash = None,
                                  setReason = Some ''Delegate account has no Ether on its balance''\<rparr>,
                               c), w1)"
    by (simp add: processRequest_def)
  with True show ?thesis by blast
next
  case False
  with assms have "processRequest env r dr c w
                  = Some (Inr (findOneAndUpdate dr (oid r)
                                 \<lparr>setStatus = Some failed, setTxReceipt = None,
                                  setNonce = None, setTransactionHash = None,
                                  setReason = Some (''Transaction error when publishing: ''
                                                     @ toString e)\<rparr>,
                               c), w1)"
    by (simp add: processRequest_def)
  moreover have "''Transaction error when publishing: '' @ toString e
                   \<noteq> ''Delegate account has no Ether on its balance''"
    by simp
  ultimately show ?thesis using False by blast
qed

theorem failure_reason_witness:
  "status drainRequest = confirmed \<and> status revertRequest = confirmed
   \<and> processRequest exampleEnv drainRequest [drainRequest] (Num 10) 0
       = Some (Inr ([drainRequest\<lparr>status := failed,
                       reason := Some ''Delegate account has no Ether on its balance''\<rparr>],
                    Num 10), 2)
   \<and> processRequest exampleEnv revertRequest [revertRequest] (Num 10) 0
       = Some (Inr ([revertRequest\<lparr>status := failed,
                       reason := Some ''Transaction error when publishing: Error: call revert exception''\<rparr>],
                    Num 10), 2)"
proof -
  have s1: "status drainRequest = confirmed" by (simp add: ex_defs)
  have s2: "status revertRequest = confirmed" by (simp add: ex_defs)
  have p1: "publishTransaction exampleEnv drainRequest (Num 10) 0
              = Some (Inl \<lparr>code = Some ''INSUFFICIENT_FUNDS'',
                           toString = ''Error: insufficient funds''\<rparr>, 2)"
    by (simp add: publishTransaction_def publishLoop.simps ex_defs)
  have p2: "publishTransaction exampleEnv revertRequest (Num 10) 0
              = Some (Inl \<lparr>code = Some ''CALL_EXCEPTION'',
                           toString = ''Error: call revert exception''\<rparr>, 2)"
    by (simp add: publishTransaction_def publishLoop.simps ex_defs)
  have ins: "INSUFFICIENT_FUNDS (errorCode exampleEnv) = ''INSUFFICIENT_FUNDS''"
    by (simp add: ex_defs)
  from failure_reason [OF s1 p1, of "[drainRequest]"] obtain m1 where
    a1: "processRequest exampleEnv drainRequest [drainRequest] (Num 10) 0
           = Some (Inr (findOneAndUpdate [drainRequest] (oid drainRequest)
                          \<lparr>setStatus = Some failed, setTxReceipt = None, setNonce = None,
                           setTransactionHash = None, setReason = Some m1\<rparr>, Num 10), 2)"
    and b1: "m1 = ''Delegate account has no Ether on its balance''
               \<longleftrightarrow> code \<lparr>code = Some ''INSUFFICIENT_FUNDS'',
                             toString = ''Error: insufficient funds''\<rparr>
                     = Some (INSUFFICIENT_FUNDS (errorCode exampleEnv))"
    by blast
  from b1 ins have m1: "m1 = ''Delegate account has no Ether on its balance''" by simp
  from failure_reason [OF s2 p2, of "[revertRequest]"] obtain m2 where
    a2: "processRequest exampleEnv revertRequest [revertRequest] (Num 10) 0
           = Some (Inr (findOneAndUpdate [revertRequest] (oid revertRequest)
                          \<lparr>setStatus = Some failed, setTxReceipt = None, setNonce = None,
                           setTransactionHash = None, setReason = Some m2\<rparr>, Num 10), 2)"
    and b2: "code \<lparr>code = Some ''CALL_EXCEPTION'', toString = ''Error: call revert exception''\<rparr>
               \<noteq> Some (INSUFFICIENT_FUNDS (errorCode exampleEnv)) \<longrightarrow>
             m2 = ''Transaction error when publishing: ''
                    @ toString \<lparr>code = Some ''CALL_EXCEPTION'',
                                 toString = ''Error: call revert exception''\<rparr>"
    by blast
  from b2 ins have m2: "m2 = ''Transaction error when publishing: Error: call revert exception''"
    by simp
  from a1 m1 have r1: "processRequest exampleEnv drainRequest [drainRequest] (Num 10) 0
       = Some (Inr ([drainRequest\<lparr>status := failed,
                       reason := Some ''Delegate account has no Ether on its balance''\<rparr>],
                    Num 10), 2)"
    by (simp add: applySet_def)
  from a2 m2 have r2: "processRequest exampleEnv revertRequest [revertRequest] (Num 10) 0
       = Some (Inr ([revertRequest\<lparr>status := failed,
                       reason := Some ''Transaction error when publishing: Error: call revert exception''\<rparr>],
                    Num 10), 2)"
    by (simp add: applySet_def)
  from s1 s2 r1 r2 show ?thesis by simp
qed

text \<open>
  C10 (frame of the failure update). When the publish attempt of a confirmed request
  raises, the update names the status and the reason only: the nonces and the transaction
  hashes of the collection are what they were, and so is every document up to its status
  and reason.
\<close>

theorem failure_update_frame:
  assumes "status r = confirmed"
    and "publishTransaction env r c w = Some (Inl e, w1)"
  shows "\<exists>dr1 msg. processRequest env r dr c w = Some (Inr (dr1, c), w1)
           \<and> dr1 = findOneAndUpdate dr (oid r)
                     \<lparr>setStatus = Some failed, setTxReceipt = None, setNonce = None,
                      setTransactionHash = None, setReason = Some msg\<rparr>
           \<and> map nonce dr1 = map nonce dr
           \<and> map transactionHash dr1 = map transactionHash dr
           \<and> map (\<lambda>d. d\<lparr>status := s, reason := x\<rparr>) dr1
               = map (\<lambda>d. d\<lparr>status := s, reason := x\<rparr>) dr"
proof -
  define msg where "msg = (if code e = Some (INSUFFICIENT_FUNDS (errorCode env))
                           then ''Delegate account has no Ether on its balance''
                           else ''Transaction error when publishing: '' @ toString e)"
  define u where "u = \<lparr>setStatus = Some failed, setTxReceipt = None, setNonce = None,
                         setTransactionHash = None, setReason = Some msg\<rparr>"
  from assms have step: "processRequest env r dr c w
                           = Some (Inr (findOneAndUpdate dr (oid r) u, c), w1)"
    by (simp add: processRequest_def u_def msg_def)
  have u: "setNonce u = None" "setTransactionHash u = None" "setTxReceipt u = None"
    by (simp_all add: u_def)
  have "map nonce (findOneAndUpdate dr (oid r) u) = map nonce dr"
    using u by (simp add: map_nonce_findOneAndUpdate)
  moreover have "map transactionHash (findOneAndUpdate dr (oid r) u) = map transactionHash dr"
    using u by (simp add: map_transactionHash_findOneAndUpdate)
  moreover have "map (\<lambda>d. d\<lparr>status := s, reason := x\<rparr>) (findOneAndUpdate dr (oid r) u)
                   = map (\<lambda>d. d\<lparr>status := s, reason := x\<rparr>) dr"
    using u by (rule erase_findOneAndUpdate)
  ultimately show ?thesis using step unfolding u_def by blast
qed

theorem failure_update_frame_witness:
  "status drainRequest = confirmed
   \<and> (\<exists>dr1 msg. processRequest exampleEnv drainRequest [miningRequest ''0xaa'', drainRequest]
                   (Num 10) 0 = Some (Inr (dr1, Num 10), 2)
         \<and> dr1 = findOneAndUpdate [miningRequest ''0xaa'', drainRequest] (oid drainRequest)
                   \<lparr>setStatus = Some failed, setTxReceipt = None, setNonce = None,
                    setTransactionHash = None, setReason = Some msg\<rparr>
         \<and> map nonce dr1 = [Some (Num 6), None]
         \<and> map transactionHash dr1 = [Some ''0xaa'', None])"
proof -
  have s1: "status drainRequest = confirmed" by (simp add: ex_defs)
  have p1: "publishTransaction exampleEnv drainRequest (Num 10) 0
              = Some (Inl \<lparr>code = Some ''INSUFFICIENT_FUNDS'',
                           toString = ''Error: insufficient funds''\<rparr>, 2)"
    by (simp add: publishTransaction_def publishLoop.simps ex_defs)
  have n: "map nonce [miningRequest ''0xaa'', drainRequest] = [Some (Num 6), None]"
    by (simp add: ex_defs)
  have h: "map transactionHash [miningRequest ''0xaa'', drainRequest] = [Some ''0xaa'', None]"
    by (simp add: ex_defs)
  from failure_update_frame [OF s1 p1, where dr = "[miningRequest ''0xaa'', drainRequest]"
      and s = failed and x = None]
  show ?thesis unfolding n h using s1
    by (elim exE conjE) (intro conjI exI, assumption+)
qed

section \<open>The expiry of a created request\<close>

text \<open>
  C8 (expiry default), as the code has it. A created request carries the clock reading
  as \<open>createdAt\<close>. When the context supplies an expiry other than 0 (in seconds),
  \<open>expiresAt\<close> is \<open>new Date\<close> of that expiry times 1000: that instant when it lies
  within the range of a \<open>Date\<close> (at most 8.64e15 ms from the epoch), and \<open>Invalid Date\<close>
  beyond. When the context supplies none, or supplies 0, \<open>expiresAt\<close> is \<open>new Date\<close> of
  the creation time plus the default window: that instant when it lies within the range.
  The stored document has the same two dates.
\<close>

theorem create_expiresAt:
  assumes "create dflt now newOid i c s f so dr = Inr (doc, dr1)"
  shows "createdAt doc = Date now
       \<and> (ctxExpiresAt c = Some e \<longrightarrow> e \<noteq> 0 \<longrightarrow> \<bar>e * 1000\<bar> \<le> 8640000000000000 \<longrightarrow>
            expiresAt doc = Date (e * 1000))
       \<and> (ctxExpiresAt c = Some e \<longrightarrow> e \<noteq> 0 \<longrightarrow> 8640000000000000 < \<bar>e * 1000\<bar> \<longrightarrow>
            expiresAt doc = InvalidDate)
       \<and> (ctxExpiresAt c = None \<or> ctxExpiresAt c = Some 0 \<longrightarrow>
            expiresAt doc = newDate (now + dflt * 1000))
       \<and> (ctxExpiresAt c = None \<or> ctxExpiresAt c = Some 0 \<longrightarrow>
            \<bar>now + dflt * 1000\<bar> \<le> 8640000000000000 \<longrightarrow>
            expiresAt doc = Date (now + dflt * 1000))
       \<and> (\<exists>d. dr1 = dr @ [d] \<and> expiresAt d = expiresAt doc \<and> createdAt d = createdAt doc)"
  using assms
  by (auto simp add: create_def Let_def newDate_def split: if_splits option.splits)

theorem create_expiresAt_witness:
  "create 3600 1000000 7 ''r9'' \<lparr>contractAddress = ''0xtoken'', ctxExpiresAt = Some 1700000000\<rparr>
     ''0xsigner'' ''1'' ''{}'' [exampleRequest] \<noteq> Inl duplicateKey
   \<and> expiresAt (fst (projr (create 3600 1000000 7 ''r9''
        \<lparr>contractAddress = ''0xtoken'', ctxExpiresAt = Some 1700000000\<rparr>
        ''0xsigner'' ''1'' ''{}'' [exampleRequest]))) = Date 1700000000000
   \<and> expiresAt (fst (projr (create 3600 1000000 7 ''r9''
        \<lparr>contractAddress = ''0xtoken'', ctxExpiresAt = Some 9000000000000\<rparr>
        ''0xsigner'' ''1'' ''{}'' [exampleRequest]))) = InvalidDate
   \<and> expiresAt (fst (projr (create 3600 1000000 7 ''r9''
        \<lparr>contractAddress = ''0xtoken'', ctxExpiresAt = None\<rparr>
        ''0xsigner'' ''1'' ''{}'' [exampleRequest]))) = Date (1000000 + 3600 * 1000)"
proof -
  obtain doc1 dr1 where c1: "create 3600 1000000 7 ''r9''
        \<lparr>contractAddress = ''0xtoken'', ctxExpiresAt = Some 1700000000\<rparr>
        ''0xsigner'' ''1'' ''{}'' [exampleRequest] = Inr (doc1, dr1)"
    by (simp add: create_def Let_def ex_defs)
  obtain doc2 dr2 where c2: "create 3600 1000000 7 ''r9''
        \<lparr>contractAddress = ''0xtoken'', ctxExpiresAt = None\<rparr>
        ''0xsigner'' ''1'' ''{}'' [exampleRequest] = Inr (doc2, dr2)"
    by (simp add: create_def Let_def ex_defs)
  obtain doc3 dr3 where c3: "create 3600 1000000 7 ''r9''
        \<lparr>contractAddress = ''0xtoken'', ctxExpiresAt = Some 9000000000000\<rparr>
        ''0xsigner'' ''1'' ''{}'' [exampleRequest] = Inr (doc3, dr3)"
    by (simp add: create_def Let_def ex_defs)
  from create_expiresAt [OF c1, where e = 1700000000]
  have 1: "expiresAt doc1 = Date 1700000000000" by simp
  from create_expiresAt [OF c3, where e = 9000000000000]
  have 3: "expiresAt doc3 = InvalidDate" by simp
  from create_expiresAt [OF c2, where e = 0]
  have 2: "expiresAt doc2 = Date (1000000 + 3600 * 1000)" by (simp add: newDate_def)
  from 1 2 3 c1 c2 c3 show ?thesis by (simp add: duplicateKey_def)
qed

text \<open>
  The claim as written, that a supplied expiry is always the one used, fails for the
  expiry 0: created at 1000000 ms with a default window of 3600 s, the request expires at
  4600000 ms and not at 0.
\<close>

theorem create_expiry_zero:
  "\<not> isl (create 3600 1000000 7 ''r9'' \<lparr>contractAddress = ''0xtoken'', ctxExpiresAt = Some 0\<rparr>
            ''0xsigner'' ''1'' ''{}'' [])
   \<and> expiresAt (fst (projr (create 3600 1000000 7 ''r9''
         \<lparr>contractAddress = ''0xtoken'', ctxExpiresAt = Some 0\<rparr> ''0xsigner'' ''1'' ''{}'' [])))
       = Date 4600000
   \<and> expiresAt (fst (projr (create 3600 1000000 7 ''r9''
         \<lparr>contractAddress = ''0xtoken'', ctxExpiresAt = Some 0\<rparr> ''0xsigner'' ''1'' ''{}'' [])))
       \<noteq> newDate (0 * 1000)"
  by (simp add: create_def Let_def newDate_def)

end
